theory Spec2Isabelle
  imports Main "HOL-Library.Word" "HOL-Library.Multiset"
begin

section \<open>Interrupt controller selection and interrupt routing of the arc kernel\<close>

text \<open>
  A shallow embedding of \<^verbatim>\<open>kernel/arc/intr/ic.c\<close> (the topology selector) and
  \<^verbatim>\<open>kernel/arc/intr/route.c\<close> (the routing table and the dispatcher).

  The kernel's globals (\<^verbatim>\<open>ic_type\<close>, \<^verbatim>\<open>smp_mode\<close>, \<^verbatim>\<open>intr_handlers\<close>,
  \<^verbatim>\<open>ioapic_list\<close>) are the fields of one state record that every function takes and
  returns. The controller drivers (8259 PIC, local APIC, x2APIC, I/O APIC) and the
  registered handlers are external: a call to one of them is recorded, with its arguments,
  at the end of the field \<open>trace\<close>. \<^verbatim>\<open>panic\<close> halts the system, so a function that may
  panic returns a sum: \<open>Inl\<close> carries the panic and the state in which it was raised.

  The lock operations (\<^verbatim>\<open>intr_lock\<close>, \<^verbatim>\<open>rw_wlock\<close>, \<^verbatim>\<open>rw_rlock\<close> and their
  releases) have no effect on a single thread of control and are left out. What a driver
  or a handler does once it is called (a handler may write through the pointer it is
  given) is outside the model: the trace holds the call and the arguments it was made with.
\<close>

subsection \<open>Data\<close>

text \<open>
  The vector constants of \<^verbatim>\<open>arc/intr/common.h\<close>, a header that is not part of the
  sources at hand: they are parameters of the model. Vectors (\<^verbatim>\<open>intr_t\<close>,
  \<^verbatim>\<open>intr_id_t\<close>), IRQ numbers (\<^verbatim>\<open>irq_t\<close>) and CPU ids are natural numbers, their
  types being declared in that header too; the model takes it that \<^verbatim>\<open>state->id\<close>,
  \<^verbatim>\<open>irq + IRQ0\<close> and \<^verbatim>\<open>irq_base + irqs - 1\<close> do not leave the range of their C
  types (so an I/O APIC has at least one line), and that every vector indexes
  \<^verbatim>\<open>intr_handlers\<close> within its bounds.
\<close>

record intr_consts =
  FAULT31 :: nat
  IRQ0 :: nat
  IRQ15 :: nat
  IRQ23 :: nat
  SPURIOUS :: nat
  IRQS :: nat

text \<open>
  The values \<^verbatim>\<open>ic_type\<close> and the argument of \<^verbatim>\<open>ic_bsp_init\<close> range over: the four
  named constants, and \<open>IC_TYPE_unknown\<close> for any other \<^verbatim>\<open>int\<close>.
\<close>

datatype ic_type_t =
  IC_TYPE_NONE | IC_TYPE_PIC | IC_TYPE_LAPIC | IC_TYPE_LX2APIC | IC_TYPE_unknown

datatype smp_mode_t = MODE_UP | MODE_SMP

type_synonym intr_handler = nat  \<comment> \<open>a function pointer, compared by address\<close>

record intr_state =
  intr_id :: nat        \<comment> \<open>the field \<^verbatim>\<open>id\<close>\<close>
  regs :: "nat list"    \<comment> \<open>the saved registers\<close>

record irq_tuple =
  irq :: nat
  hints :: nat          \<comment> \<open>polarity and trigger, used by the I/O APIC driver only\<close>

record ioapic =
  irq_base :: nat
  irqs :: nat

datatype event =
    Pic_init
  | Lapic_mmio_init "64 word"
  | Lapic_init
  | Lx2apic_init
  | Ic_type_store ic_type_t   \<comment> \<open>the assignment \<^verbatim>\<open>ic_type = type\<close>\<close>
  | Pic_ack nat
  | Apic_ack
  | Lapic_ack
  | Lx2apic_ack
  | Lapic_ipi nat nat nat
  | Lx2apic_ipi nat nat nat
  | Pic_mask nat
  | Pic_unmask nat
  | Ioapic_route ioapic irq_tuple nat
  | Ioapic_mask ioapic irq_tuple
  | Handler_call intr_handler intr_state

record kstate =
  ic_type :: ic_type_t
  smp_mode :: smp_mode_t
  intr_handlers :: "nat \<Rightarrow> intr_handler list"
  ioapic_list :: "ioapic list"
  trace :: "event list"

datatype fatal = Panic string "nat list"  \<comment> \<open>the format string and its arguments\<close>

type_synonym 'a outcome = "(fatal \<times> kstate) + 'a"

definition hw :: "event \<Rightarrow> kstate \<Rightarrow> kstate" where
  "hw e s = s\<lparr>trace := trace s @ [e]\<rparr>"

definition panic :: "string \<Rightarrow> nat list \<Rightarrow> kstate \<Rightarrow> 'a outcome" where
  "panic msg args s = Inl (Panic msg args, s)"

text \<open>The state in which a call ended: at its return, or at the panic.\<close>

fun final :: "kstate outcome \<Rightarrow> kstate" where
  "final (Inl (_, s)) = s"
| "final (Inr s) = s"

text \<open>The external calls made since the state \<open>s\<close>.\<close>

definition emitted :: "kstate \<Rightarrow> kstate \<Rightarrow> event list" where
  "emitted s s' = drop (length (trace s)) (trace s')"

subsection \<open>The topology selector (ic.c)\<close>

text \<open>
  \<^verbatim>\<open>ic_bsp_init(int type, ...)\<close>: \<open>extra\<close> is the variadic \<^verbatim>\<open>uint64_t\<close> argument,
  read in the local APIC case only.
\<close>

definition ic_bsp_init :: "ic_type_t \<Rightarrow> 64 word \<Rightarrow> kstate \<Rightarrow> kstate outcome" where
  "ic_bsp_init type extra s =
     (case (case type of
              IC_TYPE_PIC \<Rightarrow> Inr (hw Pic_init s)
            | IC_TYPE_LAPIC \<Rightarrow> Inr (hw (Lapic_mmio_init extra) s)
            | IC_TYPE_LX2APIC \<Rightarrow> Inr s
            | _ \<Rightarrow> panic ''unknown ic type'' [] s) of
        Inl halted \<Rightarrow> Inl halted
      | Inr s1 \<Rightarrow> Inr (hw (Ic_type_store type) (s1\<lparr>ic_type := type\<rparr>)))"

definition ic_ap_init :: "kstate \<Rightarrow> kstate outcome" where
  "ic_ap_init s =
     (case ic_type s of
        IC_TYPE_NONE \<Rightarrow> panic ''no IC initialised'' [] s
      | IC_TYPE_LAPIC \<Rightarrow> Inr (hw Lapic_init s)
      | IC_TYPE_LX2APIC \<Rightarrow> Inr (hw Lx2apic_init s)
      | _ \<Rightarrow> Inr s)"

definition ic_ack :: "intr_consts \<Rightarrow> nat \<Rightarrow> kstate \<Rightarrow> kstate outcome" where
  "ic_ack K ident s =
     (case ic_type s of
        IC_TYPE_NONE \<Rightarrow> panic ''no IC initialised'' [] s
      | IC_TYPE_PIC \<Rightarrow>
          Inr (if ident \<ge> IRQ0 K \<and> ident \<le> IRQ15 K then hw (Pic_ack ident) s else s)
      | IC_TYPE_LAPIC \<Rightarrow>
          Inr (if ident \<ge> IRQ0 K \<and> ident \<le> IRQ23 K then hw Lapic_ack s else s)
      | IC_TYPE_LX2APIC \<Rightarrow>
          Inr (if ident \<ge> IRQ0 K \<and> ident \<le> IRQ23 K then hw Lx2apic_ack s else s)
      | IC_TYPE_unknown \<Rightarrow> Inr s)"

definition ic_ipi_init :: "nat \<Rightarrow> kstate \<Rightarrow> kstate outcome" where
  "ic_ipi_init cpu s =
     (case ic_type s of
        IC_TYPE_NONE \<Rightarrow> panic ''no IC initialised'' [] s
      | IC_TYPE_PIC \<Rightarrow> panic ''8259 PICs do not support IPIs'' [] s
      | IC_TYPE_LAPIC \<Rightarrow> Inr (hw (Lapic_ipi cpu 0x05 0x00) s)
      | IC_TYPE_LX2APIC \<Rightarrow> Inr (hw (Lx2apic_ipi cpu 0x05 0x00) s)
      | IC_TYPE_unknown \<Rightarrow> Inr s)"

definition ic_ipi_startup :: "nat \<Rightarrow> 8 word \<Rightarrow> kstate \<Rightarrow> kstate outcome" where
  "ic_ipi_startup cpu trampoline_addr s =
     (case ic_type s of
        IC_TYPE_NONE \<Rightarrow> panic ''no IC initialised'' [] s
      | IC_TYPE_PIC \<Rightarrow> panic ''8259 PICs do not support IPIs'' [] s
      | IC_TYPE_LAPIC \<Rightarrow> Inr (hw (Lapic_ipi cpu 0x06 (unat trampoline_addr)) s)
      | IC_TYPE_LX2APIC \<Rightarrow> Inr (hw (Lx2apic_ipi cpu 0x06 (unat trampoline_addr)) s)
      | IC_TYPE_unknown \<Rightarrow> Inr s)"

subsection \<open>The routing table and the dispatcher (route.c)\<close>

text \<open>
  \<^verbatim>\<open>intr_handlers\<close> holds one chain per vector; a chain is the list of the handlers
  of its nodes, head first, and the field \<^verbatim>\<open>size\<close> of a \<^verbatim>\<open>list_t\<close> is its length.
\<close>

text \<open>Lines 41 to 51 of \<^verbatim>\<open>intr_dispatch\<close>: the acknowledgment.\<close>

definition dispatch_ack :: "intr_consts \<Rightarrow> nat \<Rightarrow> kstate \<Rightarrow> kstate" where
  "dispatch_ack K intr s =
     (if smp_mode s = MODE_SMP then
        (if intr > FAULT31 K \<and> intr \<noteq> SPURIOUS K then hw Apic_ack s else s)
      else
        (if intr \<ge> IRQ0 K \<and> intr \<le> IRQ15 K then hw (Pic_ack (intr - IRQ0 K)) s else s))"

text \<open>The loop over the chain: every handler is called with the same \<^verbatim>\<open>state\<close>.\<close>

fun call_handlers :: "intr_handler list \<Rightarrow> intr_state \<Rightarrow> kstate \<Rightarrow> kstate" where
  "call_handlers [] state s = s"
| "call_handlers (handler # rest) state s =
     call_handlers rest state (hw (Handler_call handler state) s)"

definition intr_dispatch :: "intr_consts \<Rightarrow> intr_state \<Rightarrow> kstate \<Rightarrow> kstate outcome" where
  "intr_dispatch K state s =
     (let intr = intr_id state;
          s1 = dispatch_ack K intr s;
          handler_list = intr_handlers s1 (intr_id state)
      in if length handler_list = 0
         then panic ''unhandled interrupt %d'' [intr_id state] s1
         else Inr (call_handlers handler_list state s1))"

text \<open>
  The static \<^verbatim>\<open>_intr_route_intr\<close>. \<open>mem\<close> tells whether \<^verbatim>\<open>malloc\<close> returns a
  node: the allocator is external, and its answer is an input of the model.
\<close>

definition intr_route_intr_static ::
  "bool \<Rightarrow> nat \<Rightarrow> intr_handler \<Rightarrow> kstate \<Rightarrow> bool \<times> kstate" where
  "intr_route_intr_static mem intr handler s =
     (if \<not> mem then (False, s)
      else (True, s\<lparr>intr_handlers :=
                      (intr_handlers s)(intr := intr_handlers s intr @ [handler])\<rparr>))"

text \<open>
  The static \<^verbatim>\<open>_intr_unroute_intr\<close>: the walk over the chain unlinks the first node
  whose handler is the argument, and returns at once.
\<close>

fun unlink_first :: "intr_handler \<Rightarrow> intr_handler list \<Rightarrow> intr_handler list" where
  "unlink_first handler [] = []"
| "unlink_first handler (p # rest) =
     (if p = handler then rest else p # unlink_first handler rest)"

definition intr_unroute_intr_static :: "nat \<Rightarrow> intr_handler \<Rightarrow> kstate \<Rightarrow> kstate" where
  "intr_unroute_intr_static intr handler s =
     s\<lparr>intr_handlers :=
         (intr_handlers s)(intr := unlink_first handler (intr_handlers s intr))\<rparr>"

definition intr_route_intr :: "bool \<Rightarrow> nat \<Rightarrow> intr_handler \<Rightarrow> kstate \<Rightarrow> bool \<times> kstate" where
  "intr_route_intr mem intr handler s = intr_route_intr_static mem intr handler s"

definition intr_unroute_intr :: "nat \<Rightarrow> intr_handler \<Rightarrow> kstate \<Rightarrow> kstate" where
  "intr_unroute_intr intr handler s = intr_unroute_intr_static intr handler s"

text \<open>
  The loop of \<^verbatim>\<open>intr_route_irq\<close> over \<^verbatim>\<open>ioapic_list\<close>: the first I/O APIC that
  passes the range test is programmed and the function returns; when the list is
  exhausted, control reaches the final \<^verbatim>\<open>return false\<close>.
\<close>

fun route_irq_scan ::
  "ioapic list \<Rightarrow> bool \<Rightarrow> irq_tuple \<Rightarrow> nat \<Rightarrow> intr_handler \<Rightarrow> kstate \<Rightarrow> bool \<times> kstate" where
  "route_irq_scan [] mem tuple intr handler s = (False, s)"
| "route_irq_scan (apic # rest) mem tuple intr handler s =
     (let irq_first = irq_base apic;
          irq_last = irq_base apic + irqs apic - 1
      in if irq tuple \<ge> irq_first \<and> irq tuple < irq_last
         then (let (ok, s1) = intr_route_intr_static mem intr handler s
               in (ok, hw (Ioapic_route apic tuple intr) s1))
         else route_irq_scan rest mem tuple intr handler s)"

definition intr_route_irq ::
  "intr_consts \<Rightarrow> bool \<Rightarrow> irq_tuple \<Rightarrow> intr_handler \<Rightarrow> kstate \<Rightarrow> bool \<times> kstate" where
  "intr_route_irq K mem tuple handler s =
     (if smp_mode s = MODE_UP then
        (if irq tuple < 16 then
           (let intr = irq tuple + IRQ0 K;
                (ok, s1) = intr_route_intr_static mem intr handler s
            in (ok, hw (Pic_unmask (irq tuple)) s1))
         else (False, s))
      else
        (let intr = (irq tuple mod IRQS K) + IRQ0 K
         in route_irq_scan (ioapic_list s) mem tuple intr handler s))"

text \<open>
  The loop of \<^verbatim>\<open>intr_unroute_irq\<close> over \<^verbatim>\<open>ioapic_list\<close>: it has no early exit,
  every I/O APIC that passes the range test is masked.
\<close>

fun unroute_irq_scan :: "ioapic list \<Rightarrow> irq_tuple \<Rightarrow> kstate \<Rightarrow> kstate" where
  "unroute_irq_scan [] tuple s = s"
| "unroute_irq_scan (apic # rest) tuple s =
     (let irq_first = irq_base apic;
          irq_last = irq_base apic + irqs apic - 1
      in unroute_irq_scan rest tuple
           (if irq tuple \<ge> irq_first \<and> irq tuple < irq_last
            then hw (Ioapic_mask apic tuple) s else s))"

definition intr_unroute_irq ::
  "intr_consts \<Rightarrow> irq_tuple \<Rightarrow> intr_handler \<Rightarrow> kstate \<Rightarrow> kstate" where
  "intr_unroute_irq K tuple handler s =
     (if smp_mode s = MODE_UP then
        (if irq tuple < 16 then
           (let intr = irq tuple + IRQ0 K;
                s1 = intr_unroute_intr_static intr handler s
            in if length (intr_handlers s1 intr) = 0
               then hw (Pic_mask (irq tuple)) s1 else s1)
         else s)
      else
        (let intr = (irq tuple mod IRQS K) + IRQ0 K;
             s1 = unroute_irq_scan (ioapic_list s) tuple s
         in intr_unroute_intr_static intr handler s1))"

subsection \<open>Observations\<close>

fun is_handler_call :: "event \<Rightarrow> bool" where
  "is_handler_call (Handler_call _ _) = True"
| "is_handler_call _ = False"

text \<open>
  \<^verbatim>\<open>intr_route_intr(v, h)\<close> with a successful allocation, then
  \<^verbatim>\<open>intr_unroute_intr(v, h)\<close>.
\<close>

definition route_then_unroute :: "nat \<Rightarrow> intr_handler \<Rightarrow> kstate \<Rightarrow> kstate" where
  "route_then_unroute v h s = intr_unroute_intr v h (snd (intr_route_intr True v h s))"

subsection \<open>Concrete inputs\<close>

text \<open>
  A vector layout as section 3 of the specification describes it: faults 0 to 31, the IRQ
  vectors next to them, 24 IRQ lines, and a spurious vector.
\<close>

definition arc_consts :: intr_consts where
  "arc_consts = \<lparr>FAULT31 = 31, IRQ0 = 32, IRQ15 = 47, IRQ23 = 55, SPURIOUS = 255, IRQS = 24\<rparr>"

text \<open>A state whose table has one non-empty chain, \<open>hs\<close> at the vector \<open>v\<close>.\<close>

definition chain_state ::
  "ic_type_t \<Rightarrow> smp_mode_t \<Rightarrow> nat \<Rightarrow> intr_handler list \<Rightarrow> ioapic list \<Rightarrow> kstate" where
  "chain_state t m v hs apics =
     \<lparr>ic_type = t, smp_mode = m, intr_handlers = (\<lambda>_. [])(v := hs),
      ioapic_list = apics, trace = []\<rparr>"

definition boot_state :: "ic_type_t \<Rightarrow> smp_mode_t \<Rightarrow> kstate" where
  "boot_state t m =
     \<lparr>ic_type = t, smp_mode = m, intr_handlers = (\<lambda>_. []), ioapic_list = [], trace = []\<rparr>"

section \<open>Basic facts\<close>

lemma trace_hw: "trace (hw e s) = trace s @ [e]"
  by (simp add: hw_def)

lemma emitted_self: "emitted s s = []"
  by (simp add: emitted_def)

lemma emitted_hw: "emitted s (hw e s) = [e]"
  by (simp add: emitted_def hw_def)

lemma emitted_append: "trace s' = trace s @ es \<Longrightarrow> emitted s s' = es"
  by (simp add: emitted_def)

lemma call_handlers_trace:
  "call_handlers hs st s = s\<lparr>trace := trace s @ map (\<lambda>h. Handler_call h st) hs\<rparr>"
  by (induction hs arbitrary: s) (simp_all add: hw_def)

lemma dispatch_ack_handlers: "intr_handlers (dispatch_ack K v s) = intr_handlers s"
  by (simp add: dispatch_ack_def hw_def)

lemma dispatch_ack_emitted:
  "emitted s (dispatch_ack K v s) =
     (if smp_mode s = MODE_SMP
      then (if FAULT31 K < v \<and> v \<noteq> SPURIOUS K then [Apic_ack] else [])
      else (if IRQ0 K \<le> v \<and> v \<le> IRQ15 K then [Pic_ack (v - IRQ0 K)] else []))"
  by (simp add: dispatch_ack_def emitted_hw emitted_self)

lemma dispatch_ack_trace:
  "trace (dispatch_ack K v s) = trace s @ emitted s (dispatch_ack K v s)"
  by (simp add: dispatch_ack_def emitted_hw emitted_self trace_hw)

lemma filter_handler_calls:
  "filter is_handler_call (map (\<lambda>h. Handler_call h st) hs) = map (\<lambda>h. Handler_call h st) hs"
  by (induction hs) simp_all

lemma dispatch_empty:
  assumes "intr_handlers s (intr_id st) = []"
  shows "intr_dispatch K st s =
    Inl (Panic ''unhandled interrupt %d'' [intr_id st], dispatch_ack K (intr_id st) s)"
  using assms by (simp add: intr_dispatch_def Let_def dispatch_ack_handlers panic_def)

lemma dispatch_nonempty:
  assumes "intr_handlers s (intr_id st) \<noteq> []"
  shows "intr_dispatch K st s =
    Inr (call_handlers (intr_handlers s (intr_id st)) st (dispatch_ack K (intr_id st) s))"
  using assms by (simp add: intr_dispatch_def Let_def dispatch_ack_handlers)

lemma dispatch_nonempty_emitted:
  "emitted s (call_handlers (intr_handlers s v) st (dispatch_ack K v s)) =
     emitted s (dispatch_ack K v s) @ map (\<lambda>h. Handler_call h st) (intr_handlers s v)"
proof -
  have "trace (call_handlers (intr_handlers s v) st (dispatch_ack K v s)) =
      trace s @ (emitted s (dispatch_ack K v s) @ map (\<lambda>h. Handler_call h st) (intr_handlers s v))"
    using dispatch_ack_trace [of K v s] by (simp add: call_handlers_trace)
  then show ?thesis by (rule emitted_append)
qed

lemma dispatch_handler_calls:
  "filter is_handler_call (emitted s (final (intr_dispatch K st s))) =
     map (\<lambda>h. Handler_call h st) (intr_handlers s (intr_id st))"
proof (cases "intr_handlers s (intr_id st) = []")
  case True
  then show ?thesis by (simp add: dispatch_empty dispatch_ack_emitted)
next
  case False
  then show ?thesis
    by (simp add: dispatch_nonempty dispatch_nonempty_emitted dispatch_ack_emitted
          filter_handler_calls)
qed

lemma unlink_first_remove1: "unlink_first h xs = remove1 h xs"
  by (induction xs) auto

lemma remove1_snoc_fresh: "h \<notin> set xs \<Longrightarrow> remove1 h (xs @ [h]) = xs"
  by (induction xs) auto

lemma route_then_unroute_state:
  "route_then_unroute v h s =
     s\<lparr>intr_handlers := (intr_handlers s)(v := remove1 h (intr_handlers s v @ [h]))\<rparr>"
  by (simp add: route_then_unroute_def intr_unroute_intr_def intr_route_intr_def
        intr_route_intr_static_def intr_unroute_intr_static_def unlink_first_remove1)

section \<open>The dispatcher\<close>

text \<open>
  C1. Dispatching a vector whose chain is empty ends in the panic
  \<^verbatim>\<open>unhandled interrupt\<close>, raised in the state the acknowledgment left, and no handler has
  been called. Dispatching a vector whose chain is not empty returns without a panic; after
  the acknowledgment it calls every handler of the chain, in chain order, each with the
  interrupt state \<open>st\<close> that was dispatched, and leaves the table as it was.
\<close>

theorem dispatch_empty_panics_else_calls_chain:
  "(intr_handlers s (intr_id st) = [] \<longrightarrow>
      intr_dispatch K st s =
        Inl (Panic ''unhandled interrupt %d'' [intr_id st], dispatch_ack K (intr_id st) s) \<and>
      filter is_handler_call (emitted s (dispatch_ack K (intr_id st) s)) = []) \<and>
   (intr_handlers s (intr_id st) \<noteq> [] \<longrightarrow>
      (\<exists>s'. intr_dispatch K st s = Inr s' \<and>
         emitted s s' =
           emitted s (dispatch_ack K (intr_id st) s)
             @ map (\<lambda>h. Handler_call h st) (intr_handlers s (intr_id st)) \<and>
         filter is_handler_call (emitted s s') =
           map (\<lambda>h. Handler_call h st) (intr_handlers s (intr_id st)) \<and>
         intr_handlers s' = intr_handlers s))"
proof (intro conjI impI)
  assume "intr_handlers s (intr_id st) = []"
  then show "intr_dispatch K st s =
      Inl (Panic ''unhandled interrupt %d'' [intr_id st], dispatch_ack K (intr_id st) s)"
    by (rule dispatch_empty)
  show "filter is_handler_call (emitted s (dispatch_ack K (intr_id st) s)) = []"
    by (simp add: dispatch_ack_emitted)
next
  let ?s' = "call_handlers (intr_handlers s (intr_id st)) st (dispatch_ack K (intr_id st) s)"
  assume "intr_handlers s (intr_id st) \<noteq> []"
  then have "intr_dispatch K st s = Inr ?s'"
    by (rule dispatch_nonempty)
  moreover have "emitted s ?s' =
      emitted s (dispatch_ack K (intr_id st) s)
        @ map (\<lambda>h. Handler_call h st) (intr_handlers s (intr_id st))"
    by (rule dispatch_nonempty_emitted)
  moreover have "filter is_handler_call (emitted s ?s') =
      map (\<lambda>h. Handler_call h st) (intr_handlers s (intr_id st))"
    by (simp add: dispatch_nonempty_emitted dispatch_ack_emitted filter_handler_calls)
  moreover have "intr_handlers ?s' = intr_handlers s"
    by (simp add: call_handlers_trace dispatch_ack_handlers)
  ultimately show "\<exists>s'. intr_dispatch K st s = Inr s' \<and>
      emitted s s' =
        emitted s (dispatch_ack K (intr_id st) s)
          @ map (\<lambda>h. Handler_call h st) (intr_handlers s (intr_id st)) \<and>
      filter is_handler_call (emitted s s') =
        map (\<lambda>h. Handler_call h st) (intr_handlers s (intr_id st)) \<and>
      intr_handlers s' = intr_handlers s"
    by blast
qed

text \<open>
  In uniprocessor mode, vector 33 with no handler: the PIC line 1 is acknowledged and the
  kernel panics. With the handlers 7 and 9 registered: the acknowledgment, then 7, then 9.
\<close>

theorem dispatch_empty_panics_else_calls_chain_witness:
  "intr_dispatch arc_consts \<lparr>intr_id = 33, regs = []\<rparr> (chain_state IC_TYPE_PIC MODE_UP 33 [] []) =
     Inl (Panic ''unhandled interrupt %d'' [33],
          (chain_state IC_TYPE_PIC MODE_UP 33 [] [])\<lparr>trace := [Pic_ack 1]\<rparr>) \<and>
   (\<exists>s'. intr_dispatch arc_consts \<lparr>intr_id = 33, regs = []\<rparr>
            (chain_state IC_TYPE_PIC MODE_UP 33 [7, 9] []) = Inr s' \<and>
      emitted (chain_state IC_TYPE_PIC MODE_UP 33 [7, 9] []) s' =
        [Pic_ack 1, Handler_call 7 \<lparr>intr_id = 33, regs = []\<rparr>,
         Handler_call 9 \<lparr>intr_id = 33, regs = []\<rparr>])"
proof -
  let ?st = "\<lparr>intr_id = 33, regs = []\<rparr>"
  let ?e = "chain_state IC_TYPE_PIC MODE_UP 33 [] []"
  let ?f = "chain_state IC_TYPE_PIC MODE_UP 33 [7, 9] []"
  have e: "intr_handlers ?e (intr_id ?st) = []"
    by (simp add: chain_state_def)
  have f: "intr_handlers ?f (intr_id ?st) = [7, 9]"
    by (simp add: chain_state_def)
  have ae: "dispatch_ack arc_consts (intr_id ?st) ?e = ?e\<lparr>trace := [Pic_ack 1]\<rparr>"
    by (simp add: dispatch_ack_def arc_consts_def chain_state_def hw_def)
  have af: "emitted ?f (dispatch_ack arc_consts (intr_id ?st) ?f) = [Pic_ack 1]"
    by (simp add: dispatch_ack_emitted arc_consts_def chain_state_def)
  have "intr_dispatch arc_consts ?st ?e =
      Inl (Panic ''unhandled interrupt %d'' [33], ?e\<lparr>trace := [Pic_ack 1]\<rparr>)"
    using dispatch_empty_panics_else_calls_chain [of ?e ?st arc_consts] e ae by simp
  moreover have "\<exists>s'. intr_dispatch arc_consts ?st ?f = Inr s' \<and>
      emitted ?f s' = [Pic_ack 1, Handler_call 7 ?st, Handler_call 9 ?st]"
    using dispatch_empty_panics_else_calls_chain [of ?f ?st arc_consts] f af by auto
  ultimately show ?thesis by (intro conjI)
qed

section \<open>Routing by IRQ in uniprocessor mode\<close>

text \<open>
  C6. In uniprocessor mode, \<^verbatim>\<open>intr_route_irq\<close> for an IRQ of 16 or more returns
  \<^verbatim>\<open>false\<close> and the state it was called in: no chain has changed and no driver has been
  called, so no PIC line has been unmasked. This holds whether or not memory is available.
\<close>

theorem route_irq_up_high_irq_fails:
  "smp_mode s = MODE_UP \<Longrightarrow> 16 \<le> irq tuple \<Longrightarrow>
     intr_route_irq K mem tuple handler s = (False, s)"
  by (simp add: intr_route_irq_def)

theorem route_irq_up_high_irq_fails_witness:
  "intr_route_irq arc_consts True \<lparr>irq = 16, hints = 0\<rparr> 7 (boot_state IC_TYPE_PIC MODE_UP) =
     (False, boot_state IC_TYPE_PIC MODE_UP)"
proof -
  have "smp_mode (boot_state IC_TYPE_PIC MODE_UP) = MODE_UP"
    by (simp add: boot_state_def)
  moreover have "16 \<le> irq \<lparr>irq = 16, hints = 0\<rparr>"
    by simp
  ultimately show ?thesis
    by (rule route_irq_up_high_irq_fails)
qed

text \<open>
  C8. In uniprocessor mode, \<^verbatim>\<open>intr_unroute_irq\<close> for an IRQ below 16 removes the first
  entry of the handler from the chain of the vector \<^verbatim>\<open>irq + IRQ0\<close> and touches no other
  chain; it then masks the PIC line of the IRQ if the chain is empty after the removal,
  and calls no driver at all if the chain still holds a handler.
\<close>

theorem unroute_irq_up_masks_iff_empty:
  "smp_mode s = MODE_UP \<Longrightarrow> irq tuple < 16 \<Longrightarrow>
     intr_handlers (intr_unroute_irq K tuple handler s) =
       (intr_handlers s)(irq tuple + IRQ0 K :=
          remove1 handler (intr_handlers s (irq tuple + IRQ0 K))) \<and>
     emitted s (intr_unroute_irq K tuple handler s) =
       (if intr_handlers (intr_unroute_irq K tuple handler s) (irq tuple + IRQ0 K) = []
        then [Pic_mask (irq tuple)] else [])"
  by (simp add: intr_unroute_irq_def intr_unroute_intr_static_def Let_def
        unlink_first_remove1 hw_def emitted_def)

text \<open>
  Line 1 with the handlers 7 and 9: removing 7 leaves 9 and the line is not masked;
  line 1 with the handler 7 alone: removing it empties the chain and masks the line.
\<close>

theorem unroute_irq_up_masks_iff_empty_witness:
  "intr_handlers (intr_unroute_irq arc_consts \<lparr>irq = 1, hints = 0\<rparr> 7
       (chain_state IC_TYPE_PIC MODE_UP 33 [7, 9] [])) 33 = [9] \<and>
   emitted (chain_state IC_TYPE_PIC MODE_UP 33 [7, 9] [])
     (intr_unroute_irq arc_consts \<lparr>irq = 1, hints = 0\<rparr> 7
       (chain_state IC_TYPE_PIC MODE_UP 33 [7, 9] [])) = [] \<and>
   intr_handlers (intr_unroute_irq arc_consts \<lparr>irq = 1, hints = 0\<rparr> 7
       (chain_state IC_TYPE_PIC MODE_UP 33 [7] [])) 33 = [] \<and>
   emitted (chain_state IC_TYPE_PIC MODE_UP 33 [7] [])
     (intr_unroute_irq arc_consts \<lparr>irq = 1, hints = 0\<rparr> 7
       (chain_state IC_TYPE_PIC MODE_UP 33 [7] [])) = [Pic_mask 1]"
proof -
  let ?t = "\<lparr>irq = 1, hints = 0\<rparr>"
  have up: "smp_mode (chain_state IC_TYPE_PIC MODE_UP 33 hs []) = MODE_UP" for hs
    by (simp add: chain_state_def)
  have low: "irq ?t < 16"
    by simp
  have c: "intr_handlers (chain_state IC_TYPE_PIC MODE_UP 33 hs []) 33 = hs" for hs
    by (simp add: chain_state_def)
  show ?thesis
    using unroute_irq_up_masks_iff_empty [OF up [of "[7, 9]"] low, of arc_consts 7]
          unroute_irq_up_masks_iff_empty [OF up [of "[7]"] low, of arc_consts 7]
    by (simp add: arc_consts_def c)
qed

section \<open>Inter-processor interrupts\<close>

text \<open>
  C9. Whatever the rest of the state and whatever the destination CPU, \<^verbatim>\<open>ic_ipi_init\<close>
  and \<^verbatim>\<open>ic_ipi_startup\<close> panic, with nothing done, when \<^verbatim>\<open>ic_type\<close> is
  \<^verbatim>\<open>IC_TYPE_NONE\<close> or \<^verbatim>\<open>IC_TYPE_PIC\<close>. When it is \<^verbatim>\<open>IC_TYPE_LAPIC\<close> or
  \<^verbatim>\<open>IC_TYPE_LX2APIC\<close> they return, having made one call, \<^verbatim>\<open>lapic_ipi\<close> or
  \<^verbatim>\<open>lx2apic_ipi\<close>, with the CPU, the mode 5 (INIT) or 6 (STARTUP) and the payload.
\<close>

theorem ipi_fatal_or_forwarded:
  "(ic_type s = IC_TYPE_NONE \<longrightarrow>
      ic_ipi_init cpu s = Inl (Panic ''no IC initialised'' [], s) \<and>
      ic_ipi_startup cpu page s = Inl (Panic ''no IC initialised'' [], s)) \<and>
   (ic_type s = IC_TYPE_PIC \<longrightarrow>
      ic_ipi_init cpu s = Inl (Panic ''8259 PICs do not support IPIs'' [], s) \<and>
      ic_ipi_startup cpu page s = Inl (Panic ''8259 PICs do not support IPIs'' [], s)) \<and>
   (ic_type s = IC_TYPE_LAPIC \<longrightarrow>
      ic_ipi_init cpu s = Inr (s\<lparr>trace := trace s @ [Lapic_ipi cpu 5 0]\<rparr>) \<and>
      ic_ipi_startup cpu page s =
        Inr (s\<lparr>trace := trace s @ [Lapic_ipi cpu 6 (unat page)]\<rparr>)) \<and>
   (ic_type s = IC_TYPE_LX2APIC \<longrightarrow>
      ic_ipi_init cpu s = Inr (s\<lparr>trace := trace s @ [Lx2apic_ipi cpu 5 0]\<rparr>) \<and>
      ic_ipi_startup cpu page s =
        Inr (s\<lparr>trace := trace s @ [Lx2apic_ipi cpu 6 (unat page)]\<rparr>))"
  by (simp add: ic_ipi_init_def ic_ipi_startup_def panic_def hw_def)

theorem ipi_fatal_or_forwarded_witness:
  "ic_ipi_init 2 (boot_state IC_TYPE_NONE MODE_SMP) =
     Inl (Panic ''no IC initialised'' [], boot_state IC_TYPE_NONE MODE_SMP) \<and>
   ic_ipi_startup 2 8 (boot_state IC_TYPE_PIC MODE_UP) =
     Inl (Panic ''8259 PICs do not support IPIs'' [], boot_state IC_TYPE_PIC MODE_UP) \<and>
   ic_ipi_init 2 (boot_state IC_TYPE_LAPIC MODE_SMP) =
     Inr ((boot_state IC_TYPE_LAPIC MODE_SMP)\<lparr>trace := [Lapic_ipi 2 5 0]\<rparr>) \<and>
   ic_ipi_startup 2 8 (boot_state IC_TYPE_LX2APIC MODE_SMP) =
     Inr ((boot_state IC_TYPE_LX2APIC MODE_SMP)\<lparr>trace := [Lx2apic_ipi 2 6 8]\<rparr>)"
proof -
  have t: "ic_type (boot_state ty m) = ty" and e: "trace (boot_state ty m) = []" for ty m
    by (simp_all add: boot_state_def)
  show ?thesis
    using ipi_fatal_or_forwarded [of "boot_state IC_TYPE_NONE MODE_SMP" 2 8]
          ipi_fatal_or_forwarded [of "boot_state IC_TYPE_PIC MODE_UP" 2 8]
          ipi_fatal_or_forwarded [of "boot_state IC_TYPE_LAPIC MODE_SMP" 2 8]
          ipi_fatal_or_forwarded [of "boot_state IC_TYPE_LX2APIC MODE_SMP" 2 8]
    by (simp add: t e)
qed

section \<open>Initialisation of the controller\<close>

text \<open>
  C10. \<^verbatim>\<open>ic_bsp_init\<close> with \<^verbatim>\<open>IC_TYPE_LX2APIC\<close> calls no driver: it only stores the
  type. With \<^verbatim>\<open>IC_TYPE_PIC\<close> it calls \<^verbatim>\<open>pic_init\<close>, with \<^verbatim>\<open>IC_TYPE_LAPIC\<close> it calls
  \<^verbatim>\<open>lapic_mmio_init\<close> on its extra argument, and in both it stores the type after that
  call. \<^verbatim>\<open>lx2apic_init\<close> is called by \<^verbatim>\<open>ic_ap_init\<close>, exactly when the stored type is
  \<^verbatim>\<open>IC_TYPE_LX2APIC\<close>, and by no other function of the topology selector.
\<close>

theorem bsp_init_backend_then_type:
  "ic_bsp_init IC_TYPE_LX2APIC extra s =
     Inr (s\<lparr>ic_type := IC_TYPE_LX2APIC, trace := trace s @ [Ic_type_store IC_TYPE_LX2APIC]\<rparr>) \<and>
   ic_bsp_init IC_TYPE_PIC extra s =
     Inr (s\<lparr>ic_type := IC_TYPE_PIC, trace := trace s @ [Pic_init, Ic_type_store IC_TYPE_PIC]\<rparr>) \<and>
   ic_bsp_init IC_TYPE_LAPIC extra s =
     Inr (s\<lparr>ic_type := IC_TYPE_LAPIC,
            trace := trace s @ [Lapic_mmio_init extra, Ic_type_store IC_TYPE_LAPIC]\<rparr>) \<and>
   (Lx2apic_init \<in> set (emitted s (final (ic_ap_init s))) \<longleftrightarrow> ic_type s = IC_TYPE_LX2APIC) \<and>
   Lx2apic_init \<notin> set (emitted s (final (ic_bsp_init type extra s))) \<and>
   Lx2apic_init \<notin> set (emitted s (final (ic_ack K v s))) \<and>
   Lx2apic_init \<notin> set (emitted s (final (ic_ipi_init cpu s))) \<and>
   Lx2apic_init \<notin> set (emitted s (final (ic_ipi_startup cpu page s)))"
proof (intro conjI)
  show "(Lx2apic_init \<in> set (emitted s (final (ic_ap_init s)))) = (ic_type s = IC_TYPE_LX2APIC)"
    by (cases "ic_type s") (simp_all add: ic_ap_init_def panic_def emitted_self emitted_hw)
  show "Lx2apic_init \<notin> set (emitted s (final (ic_bsp_init type extra s)))"
    by (cases type) (simp_all add: ic_bsp_init_def panic_def emitted_def hw_def)
  show "Lx2apic_init \<notin> set (emitted s (final (ic_ack K v s)))"
    by (cases "ic_type s") (simp_all add: ic_ack_def panic_def emitted_self emitted_hw)
  show "Lx2apic_init \<notin> set (emitted s (final (ic_ipi_init cpu s)))"
    by (cases "ic_type s") (simp_all add: ic_ipi_init_def panic_def emitted_self emitted_hw)
  show "Lx2apic_init \<notin> set (emitted s (final (ic_ipi_startup cpu page s)))"
    by (cases "ic_type s") (simp_all add: ic_ipi_startup_def panic_def emitted_self emitted_hw)
qed (simp_all add: ic_bsp_init_def hw_def)

text \<open>
  Booting with the x2APIC: the bootstrap processor records the type, and the first
  \<^verbatim>\<open>lx2apic_init\<close> is the one of an application processor.
\<close>

theorem bsp_init_backend_then_type_witness:
  "ic_bsp_init IC_TYPE_LX2APIC 0 (boot_state IC_TYPE_NONE MODE_SMP) =
     Inr ((boot_state IC_TYPE_NONE MODE_SMP)
            \<lparr>ic_type := IC_TYPE_LX2APIC, trace := [Ic_type_store IC_TYPE_LX2APIC]\<rparr>) \<and>
   Lx2apic_init \<in> set (emitted (boot_state IC_TYPE_LX2APIC MODE_SMP)
                          (final (ic_ap_init (boot_state IC_TYPE_LX2APIC MODE_SMP))))"
proof -
  have t: "ic_type (boot_state ty m) = ty" and e: "trace (boot_state ty m) = []" for ty m
    by (simp_all add: boot_state_def)
  show ?thesis
    using bsp_init_backend_then_type [of 0 "boot_state IC_TYPE_NONE MODE_SMP"]
          bsp_init_backend_then_type [of 0 "boot_state IC_TYPE_LX2APIC MODE_SMP"]
    by (simp add: t e)
qed

section \<open>Registration followed by removal\<close>

text \<open>
  The claim C5 as it is written, that \<^verbatim>\<open>intr_route_intr(v, h)\<close> followed by
  \<^verbatim>\<open>intr_unroute_intr(v, h)\<close> gives back the chain with its entries in the same order,
  fails when \<open>h\<close> was registered before: the new node goes to the tail and the removal
  takes the first node of \<open>h\<close>. The chain 1, 2 becomes 2, 1.
\<close>

theorem route_unroute_roundtrip_counterexample:
  "intr_handlers (route_then_unroute 33 1 (chain_state IC_TYPE_PIC MODE_UP 33 [1, 2] [])) 33
     = [2, 1] \<and>
   intr_handlers (route_then_unroute 33 1 (chain_state IC_TYPE_PIC MODE_UP 33 [1, 2] [])) 33
     \<noteq> intr_handlers (chain_state IC_TYPE_PIC MODE_UP 33 [1, 2] []) 33"
  by (simp add: route_then_unroute_state chain_state_def)

text \<open>
  C5, amended. A successful \<^verbatim>\<open>intr_route_intr(v, h)\<close> followed by
  \<^verbatim>\<open>intr_unroute_intr(v, h)\<close> leaves on \<open>v\<close> the prior chain with \<open>h\<close> appended and
  the first entry of \<open>h\<close> removed: the same entries as before, each as many times as
  before. The chains of the other vectors are as before and no driver is called. A
  dispatch of \<open>v\<close> afterwards calls the handlers registered before, each as many times as
  it was registered, and nothing else. When \<open>h\<close> was not registered on \<open>v\<close> before, the
  whole state, and so the order of the chain, is the prior one.
\<close>

theorem route_unroute_roundtrip:
  "fst (intr_route_intr True v h s) \<and>
   intr_handlers (route_then_unroute v h s) v = remove1 h (intr_handlers s v @ [h]) \<and>
   mset (intr_handlers (route_then_unroute v h s) v) = mset (intr_handlers s v) \<and>
   (\<forall>u. u \<noteq> v \<longrightarrow> intr_handlers (route_then_unroute v h s) u = intr_handlers s u) \<and>
   emitted s (route_then_unroute v h s) = [] \<and>
   (intr_id st = v \<longrightarrow>
      mset (filter is_handler_call
             (emitted (route_then_unroute v h s)
                (final (intr_dispatch K st (route_then_unroute v h s))))) =
      mset (map (\<lambda>g. Handler_call g st) (intr_handlers s v))) \<and>
   (h \<notin> set (intr_handlers s v) \<longrightarrow> route_then_unroute v h s = s)"
proof (intro conjI impI allI)
  show "fst (intr_route_intr True v h s)"
    by (simp add: intr_route_intr_def intr_route_intr_static_def)
  show "intr_handlers (route_then_unroute v h s) v = remove1 h (intr_handlers s v @ [h])"
    by (simp add: route_then_unroute_state)
  show same: "mset (intr_handlers (route_then_unroute v h s) v) = mset (intr_handlers s v)"
    by (simp add: route_then_unroute_state)
  show "intr_handlers (route_then_unroute v h s) u = intr_handlers s u" if "u \<noteq> v" for u
    using that by (simp add: route_then_unroute_state)
  show "emitted s (route_then_unroute v h s) = []"
    by (simp add: route_then_unroute_state emitted_def)
  show "mset (filter is_handler_call
             (emitted (route_then_unroute v h s)
                (final (intr_dispatch K st (route_then_unroute v h s))))) =
      mset (map (\<lambda>g. Handler_call g st) (intr_handlers s v))" if "intr_id st = v"
  proof -
    have "mset (map (\<lambda>g. Handler_call g st) (intr_handlers (route_then_unroute v h s) v)) =
          mset (map (\<lambda>g. Handler_call g st) (intr_handlers s v))"
      using same by (metis mset_map)
    then show ?thesis using that by (simp only: dispatch_handler_calls)
  qed
  show "route_then_unroute v h s = s" if "h \<notin> set (intr_handlers s v)"
    using that by (simp add: route_then_unroute_state remove1_snoc_fresh)
qed

text \<open>
  The chain 2, 3 on vector 33 and the new handler 1: the state is the prior one, the
  chain of vector 34 is still empty, and a dispatch of 33 calls 2 and 3.
\<close>

theorem route_unroute_roundtrip_witness:
  "route_then_unroute 33 1 (chain_state IC_TYPE_PIC MODE_UP 33 [2, 3] [])
     = chain_state IC_TYPE_PIC MODE_UP 33 [2, 3] [] \<and>
   intr_handlers (route_then_unroute 33 1 (chain_state IC_TYPE_PIC MODE_UP 33 [2, 3] [])) 34 = [] \<and>
   mset (filter is_handler_call
     (emitted (route_then_unroute 33 1 (chain_state IC_TYPE_PIC MODE_UP 33 [2, 3] []))
        (final (intr_dispatch arc_consts \<lparr>intr_id = 33, regs = []\<rparr>
           (route_then_unroute 33 1 (chain_state IC_TYPE_PIC MODE_UP 33 [2, 3] []))))))
     = {#Handler_call 2 \<lparr>intr_id = 33, regs = []\<rparr>, Handler_call 3 \<lparr>intr_id = 33, regs = []\<rparr>#}"
proof -
  let ?s = "chain_state IC_TYPE_PIC MODE_UP 33 [2, 3] []"
  let ?st = "\<lparr>intr_id = 33, regs = []\<rparr>"
  note rt = route_unroute_roundtrip [where v = 33 and h = 1 and s = ?s and st = ?st
      and K = arc_consts]
  have fresh: "1 \<notin> set (intr_handlers ?s 33)"
    by (simp add: chain_state_def)
  have other: "(34::nat) \<noteq> 33"
    by simp
  have vec: "intr_id ?st = 33"
    by simp
  have c33: "intr_handlers ?s 33 = [2, 3]" and c34: "intr_handlers ?s 34 = []"
    by (simp_all add: chain_state_def)
  from rt fresh have a: "route_then_unroute 33 1 ?s = ?s"
    by blast
  from rt other c34 have b: "intr_handlers (route_then_unroute 33 1 ?s) 34 = []"
    by simp
  from rt vec have "mset (filter is_handler_call
     (emitted (route_then_unroute 33 1 ?s)
        (final (intr_dispatch arc_consts ?st (route_then_unroute 33 1 ?s)))))
     = mset (map (\<lambda>g. Handler_call g ?st) (intr_handlers ?s 33))"
    by blast
  then have c: "mset (filter is_handler_call
     (emitted (route_then_unroute 33 1 ?s)
        (final (intr_dispatch arc_consts ?st (route_then_unroute 33 1 ?s)))))
     = {#Handler_call 2 ?st, Handler_call 3 ?st#}"
    by (simp only: c33 list.map mset.simps)
  from a b c show ?thesis by (intro conjI)
qed

section \<open>Routing by IRQ: the hardware is armed whatever the allocation gave\<close>

text \<open>
  The claim C4 as it is written, that a failed \<^verbatim>\<open>intr_route_irq\<close> does not unmask the
  PIC line, fails: \<^verbatim>\<open>pic_unmask\<close> is called after \<^verbatim>\<open>_intr_route_intr\<close> without a
  look at its result. With no memory, routing IRQ 1 returns \<^verbatim>\<open>false\<close> and has unmasked
  line 1.
\<close>

theorem route_irq_up_failure_unmasks_counterexample:
  "fst (intr_route_irq arc_consts False \<lparr>irq = 1, hints = 0\<rparr> 7
          (boot_state IC_TYPE_PIC MODE_UP)) = False \<and>
   emitted (boot_state IC_TYPE_PIC MODE_UP)
     (snd (intr_route_irq arc_consts False \<lparr>irq = 1, hints = 0\<rparr> 7
             (boot_state IC_TYPE_PIC MODE_UP))) = [Pic_unmask 1]"
  by (simp add: intr_route_irq_def intr_route_intr_static_def boot_state_def emitted_def hw_def)

text \<open>
  C4, amended. In uniprocessor mode, for an IRQ below 16, \<^verbatim>\<open>intr_route_irq\<close> returns
  what the allocation gave and makes one driver call, \<^verbatim>\<open>pic_unmask\<close> of that line, on
  success and on failure alike. On success the handler is at the tail of the chain of
  \<^verbatim>\<open>irq + IRQ0\<close>; on failure the table is as before.
\<close>

theorem route_irq_up_unmasks_always:
  "smp_mode s = MODE_UP \<Longrightarrow> irq tuple < 16 \<Longrightarrow>
     fst (intr_route_irq K mem tuple handler s) = mem \<and>
     emitted s (snd (intr_route_irq K mem tuple handler s)) = [Pic_unmask (irq tuple)] \<and>
     intr_handlers (snd (intr_route_irq K mem tuple handler s)) =
       (if mem
        then (intr_handlers s)(irq tuple + IRQ0 K :=
                intr_handlers s (irq tuple + IRQ0 K) @ [handler])
        else intr_handlers s)"
  by (simp add: intr_route_irq_def intr_route_intr_static_def Let_def emitted_def hw_def)

theorem route_irq_up_unmasks_always_witness:
  "fst (intr_route_irq arc_consts True \<lparr>irq = 1, hints = 0\<rparr> 7
          (boot_state IC_TYPE_PIC MODE_UP)) \<and>
   emitted (boot_state IC_TYPE_PIC MODE_UP)
     (snd (intr_route_irq arc_consts True \<lparr>irq = 1, hints = 0\<rparr> 7
             (boot_state IC_TYPE_PIC MODE_UP))) = [Pic_unmask 1] \<and>
   intr_handlers
     (snd (intr_route_irq arc_consts True \<lparr>irq = 1, hints = 0\<rparr> 7
             (boot_state IC_TYPE_PIC MODE_UP))) 33 = [7]"
proof -
  have up: "smp_mode (boot_state IC_TYPE_PIC MODE_UP) = MODE_UP"
    by (simp add: boot_state_def)
  have low: "irq \<lparr>irq = 1, hints = 0\<rparr> < 16"
    by simp
  have c: "intr_handlers (boot_state IC_TYPE_PIC MODE_UP) = (\<lambda>_. [])"
    by (simp add: boot_state_def)
  show ?thesis
    using route_irq_up_unmasks_always [OF up low, of arc_consts True 7]
    by (simp add: arc_consts_def c)
qed


section \<open>Removal by IRQ in multiprocessor mode\<close>

lemma unroute_irq_scan_unowned:
  "\<forall>a\<in>set apics. \<not> (irq_base a \<le> irq tuple \<and> irq tuple < irq_base a + irqs a) \<Longrightarrow>
     unroute_irq_scan apics tuple s = s"
  by (induction apics arbitrary: s) (auto simp: Let_def)

text \<open>
  The claim C7 as it is written fails on both counts. \<^verbatim>\<open>intr_unroute_irq\<close> returns
  \<^verbatim>\<open>void\<close>: the caller is told nothing. And the removal from the chain comes after the
  loop over the I/O APICs, whatever the loop found: with IRQ 30 owned by no I/O APIC
  (the only one covers 0 to 23), the handler 7 is removed from the chain of vector
  \<^verbatim>\<open>30 % 24 + 32\<close>.
\<close>

theorem unroute_irq_smp_unowned_counterexample:
  "intr_handlers
     (intr_unroute_irq arc_consts \<lparr>irq = 30, hints = 0\<rparr> 7
        (chain_state IC_TYPE_LAPIC MODE_SMP 38 [7] [\<lparr>irq_base = 0, irqs = 24\<rparr>])) 38 = [] \<and>
   intr_handlers
     (intr_unroute_irq arc_consts \<lparr>irq = 30, hints = 0\<rparr> 7
        (chain_state IC_TYPE_LAPIC MODE_SMP 38 [7] [\<lparr>irq_base = 0, irqs = 24\<rparr>]))
     \<noteq> intr_handlers (chain_state IC_TYPE_LAPIC MODE_SMP 38 [7] [\<lparr>irq_base = 0, irqs = 24\<rparr>])"
proof -
  let ?s = "chain_state IC_TYPE_LAPIC MODE_SMP 38 [7] [\<lparr>irq_base = 0, irqs = 24\<rparr>]"
  let ?s' = "intr_unroute_irq arc_consts \<lparr>irq = 30, hints = 0\<rparr> 7 ?s"
  have after: "intr_handlers ?s' 38 = []"
    by (simp add: intr_unroute_irq_def intr_unroute_intr_static_def arc_consts_def
          chain_state_def)
  have before: "intr_handlers ?s 38 = [7]"
    by (simp add: chain_state_def)
  from after before have "intr_handlers ?s' 38 \<noteq> intr_handlers ?s 38"
    by simp
  then have "intr_handlers ?s' \<noteq> intr_handlers ?s"
    by metis
  with after show ?thesis by (intro conjI)
qed

text \<open>
  C7, amended. In multiprocessor mode, with every registered I/O APIC covering at least
  one line, \<^verbatim>\<open>intr_unroute_irq\<close> for an IRQ that lies in the range
  \<^verbatim>\<open>[irq_base, irq_base + irqs)\<close> of none of them calls no driver and returns (it
  cannot panic, and it has no result to report a failure with); it still removes the
  first entry of the handler from the chain of the vector \<^verbatim>\<open>irq % IRQS + IRQ0\<close>. The
  state is the prior one when the handler is not in that chain.
\<close>

theorem unroute_irq_smp_unowned:
  "smp_mode s = MODE_SMP \<Longrightarrow>
   \<forall>a\<in>set (ioapic_list s).
      0 < irqs a \<and> \<not> (irq_base a \<le> irq tuple \<and> irq tuple < irq_base a + irqs a) \<Longrightarrow>
     intr_unroute_irq K tuple handler s =
       s\<lparr>intr_handlers := (intr_handlers s)(irq tuple mod IRQS K + IRQ0 K :=
            remove1 handler (intr_handlers s (irq tuple mod IRQS K + IRQ0 K)))\<rparr> \<and>
     emitted s (intr_unroute_irq K tuple handler s) = [] \<and>
     (handler \<notin> set (intr_handlers s (irq tuple mod IRQS K + IRQ0 K)) \<longrightarrow>
        intr_unroute_irq K tuple handler s = s)"
proof -
  assume smp: "smp_mode s = MODE_SMP"
  assume "\<forall>a\<in>set (ioapic_list s).
      0 < irqs a \<and> \<not> (irq_base a \<le> irq tuple \<and> irq tuple < irq_base a + irqs a)"
  then have "unroute_irq_scan (ioapic_list s) tuple s = s"
    by (intro unroute_irq_scan_unowned) blast
  with smp have r: "intr_unroute_irq K tuple handler s =
       s\<lparr>intr_handlers := (intr_handlers s)(irq tuple mod IRQS K + IRQ0 K :=
            remove1 handler (intr_handlers s (irq tuple mod IRQS K + IRQ0 K)))\<rparr>"
    by (simp add: intr_unroute_irq_def intr_unroute_intr_static_def Let_def
          unlink_first_remove1)
  show ?thesis
    by (simp add: r emitted_def remove1_idem)
qed

text \<open>
  IRQ 30, one I/O APIC covering 0 to 23, and the handler 7 on vector 38 with 9 behind it:
  no I/O APIC is masked, and the chain of 38 is left with 9.
\<close>

theorem unroute_irq_smp_unowned_witness:
  "emitted (chain_state IC_TYPE_LAPIC MODE_SMP 38 [7, 9] [\<lparr>irq_base = 0, irqs = 24\<rparr>])
     (intr_unroute_irq arc_consts \<lparr>irq = 30, hints = 0\<rparr> 7
        (chain_state IC_TYPE_LAPIC MODE_SMP 38 [7, 9] [\<lparr>irq_base = 0, irqs = 24\<rparr>])) = [] \<and>
   intr_handlers
     (intr_unroute_irq arc_consts \<lparr>irq = 30, hints = 0\<rparr> 7
        (chain_state IC_TYPE_LAPIC MODE_SMP 38 [7, 9] [\<lparr>irq_base = 0, irqs = 24\<rparr>])) 38 = [9] \<and>
   intr_unroute_irq arc_consts \<lparr>irq = 30, hints = 0\<rparr> 8
        (chain_state IC_TYPE_LAPIC MODE_SMP 38 [7, 9] [\<lparr>irq_base = 0, irqs = 24\<rparr>])
     = chain_state IC_TYPE_LAPIC MODE_SMP 38 [7, 9] [\<lparr>irq_base = 0, irqs = 24\<rparr>]"
proof -
  let ?s = "chain_state IC_TYPE_LAPIC MODE_SMP 38 [7, 9] [\<lparr>irq_base = 0, irqs = 24\<rparr>]"
  let ?t = "\<lparr>irq = 30, hints = 0\<rparr>"
  have smp: "smp_mode ?s = MODE_SMP"
    by (simp add: chain_state_def)
  have unowned: "\<forall>a\<in>set (ioapic_list ?s).
      0 < irqs a \<and> \<not> (irq_base a \<le> irq ?t \<and> irq ?t < irq_base a + irqs a)"
    by (simp add: chain_state_def)
  have c: "intr_handlers ?s 38 = [7, 9]"
    by (simp add: chain_state_def)
  have absent: "8 \<notin> set (intr_handlers ?s (irq ?t mod IRQS arc_consts + IRQ0 arc_consts))"
    by (simp add: arc_consts_def chain_state_def)
  note u7 = unroute_irq_smp_unowned [OF smp unowned, of arc_consts 7]
  note u8 = unroute_irq_smp_unowned [OF smp unowned, of arc_consts 8]
  from u7 have "emitted ?s (intr_unroute_irq arc_consts ?t 7 ?s) = []"
    by blast
  moreover from u7 have "intr_handlers (intr_unroute_irq arc_consts ?t 7 ?s) 38 = [9]"
    by (simp add: arc_consts_def c)
  moreover from u8 absent have "intr_unroute_irq arc_consts ?t 8 ?s = ?s"
    by blast
  ultimately show ?thesis by (intro conjI)
qed

section \<open>Routing by IRQ in multiprocessor mode\<close>

lemma route_irq_scan_unowned:
  "\<forall>a\<in>set apics. \<not> (irq_base a \<le> irq tuple \<and> irq tuple < irq_base a + irqs a) \<Longrightarrow>
     route_irq_scan apics mem tuple intr handler s = (False, s)"
  by (induction apics) (auto simp: Let_def)

lemma route_irq_smp_unowned:
  "smp_mode s = MODE_SMP \<Longrightarrow>
   \<forall>a\<in>set (ioapic_list s). \<not> (irq_base a \<le> irq tuple \<and> irq tuple < irq_base a + irqs a) \<Longrightarrow>
     intr_route_irq K mem tuple handler s = (False, s)"
  by (simp add: intr_route_irq_def route_irq_scan_unowned)

text \<open>
  C3. The range test of \<^verbatim>\<open>intr_route_irq\<close> computes the last IRQ of an I/O APIC,
  \<^verbatim>\<open>irq_last = irq_base + irqs - 1\<close>, and then compares with \<^verbatim>\<open>irq < irq_last\<close>:
  the last line of every I/O APIC is left out. With one I/O APIC covering the IRQs 0 to
  23 and memory available, IRQ 22 is routed to vector 54 and programmed into that
  I/O APIC, but IRQ 23 is refused: the call returns \<^verbatim>\<open>false\<close>, and the state is the one
  it was called in.
\<close>

theorem route_irq_smp_last_line_refused:
  "intr_route_irq arc_consts True \<lparr>irq = 23, hints = 0\<rparr> 7
     (chain_state IC_TYPE_LAPIC MODE_SMP 0 [] [\<lparr>irq_base = 0, irqs = 24\<rparr>]) =
     (False, chain_state IC_TYPE_LAPIC MODE_SMP 0 [] [\<lparr>irq_base = 0, irqs = 24\<rparr>]) \<and>
   fst (intr_route_irq arc_consts True \<lparr>irq = 22, hints = 0\<rparr> 7
     (chain_state IC_TYPE_LAPIC MODE_SMP 0 [] [\<lparr>irq_base = 0, irqs = 24\<rparr>])) \<and>
   trace (snd (intr_route_irq arc_consts True \<lparr>irq = 22, hints = 0\<rparr> 7
     (chain_state IC_TYPE_LAPIC MODE_SMP 0 [] [\<lparr>irq_base = 0, irqs = 24\<rparr>]))) =
     [Ioapic_route \<lparr>irq_base = 0, irqs = 24\<rparr> \<lparr>irq = 22, hints = 0\<rparr> 54]"
  by (simp add: intr_route_irq_def intr_route_intr_static_def arc_consts_def chain_state_def
        hw_def)

section \<open>The acknowledgment of the dispatcher and the topology selector\<close>

lemma dispatch_other_calls:
  "filter (\<lambda>e. \<not> is_handler_call e) (emitted s (final (intr_dispatch K st s))) =
     emitted s (dispatch_ack K (intr_id st) s)"
proof (cases "intr_handlers s (intr_id st) = []")
  case True
  then show ?thesis by (simp add: dispatch_empty dispatch_ack_emitted)
next
  case False
  have "filter (\<lambda>e. \<not> is_handler_call e) (map (\<lambda>h. Handler_call h st) hs) = []" for hs
    by (induction hs) simp_all
  with False show ?thesis
    by (simp add: dispatch_nonempty dispatch_nonempty_emitted dispatch_ack_emitted)
qed

text \<open>
  The claim C2 as it is written fails: \<^verbatim>\<open>intr_dispatch\<close> does not call \<^verbatim>\<open>ic_ack\<close>, and
  what it does in its place differs from it. Under the PIC, on one processor, vector 33:
  the dispatcher calls \<^verbatim>\<open>pic_ack(1)\<close>, \<^verbatim>\<open>ic_ack\<close> calls \<^verbatim>\<open>pic_ack(33)\<close>. Under the local
  APIC, on several processors, vector 64: the dispatcher calls \<^verbatim>\<open>apic_ack()\<close>,
  \<^verbatim>\<open>ic_ack\<close> calls nothing.
\<close>

theorem dispatch_ack_ic_ack_counterexample:
  "emitted (boot_state IC_TYPE_PIC MODE_UP)
     (dispatch_ack arc_consts 33 (boot_state IC_TYPE_PIC MODE_UP)) = [Pic_ack 1] \<and>
   emitted (boot_state IC_TYPE_PIC MODE_UP)
     (final (ic_ack arc_consts 33 (boot_state IC_TYPE_PIC MODE_UP))) = [Pic_ack 33] \<and>
   emitted (boot_state IC_TYPE_LAPIC MODE_SMP)
     (dispatch_ack arc_consts 64 (boot_state IC_TYPE_LAPIC MODE_SMP)) = [Apic_ack] \<and>
   emitted (boot_state IC_TYPE_LAPIC MODE_SMP)
     (final (ic_ack arc_consts 64 (boot_state IC_TYPE_LAPIC MODE_SMP))) = []"
  by (simp add: dispatch_ack_emitted ic_ack_def emitted_hw emitted_self arc_consts_def
        boot_state_def)

text \<open>
  C2, amended. The acknowledgment of \<^verbatim>\<open>intr_dispatch\<close> is chosen by the execution mode
  and not by the topology selector: it is the same whatever \<^verbatim>\<open>ic_type\<close> holds, and it
  is all that a dispatch calls besides the handlers. In multiprocessor mode it is one
  \<^verbatim>\<open>apic_ack()\<close> when the vector is above \<^verbatim>\<open>FAULT31\<close> and is not \<^verbatim>\<open>SPURIOUS\<close>; in
  uniprocessor mode it is one \<^verbatim>\<open>pic_ack(v - IRQ0)\<close> when the vector lies in
  \<^verbatim>\<open>IRQ0..IRQ15\<close>; otherwise nothing. On one processor under the PIC it acknowledges
  for the vectors for which \<^verbatim>\<open>ic_ack\<close> does; on several processors under either APIC,
  with \<^verbatim>\<open>FAULT31 < IRQ0\<close> and \<^verbatim>\<open>IRQ23 < SPURIOUS\<close>, it acknowledges whenever
  \<^verbatim>\<open>ic_ack\<close> does.
\<close>

theorem dispatch_ack_by_mode:
  "dispatch_ack K v (s\<lparr>ic_type := t\<rparr>) = (dispatch_ack K v s)\<lparr>ic_type := t\<rparr> \<and>
   filter (\<lambda>e. \<not> is_handler_call e) (emitted s (final (intr_dispatch K st s))) =
     emitted s (dispatch_ack K (intr_id st) s) \<and>
   emitted s (dispatch_ack K v s) =
     (if smp_mode s = MODE_SMP
      then (if FAULT31 K < v \<and> v \<noteq> SPURIOUS K then [Apic_ack] else [])
      else (if IRQ0 K \<le> v \<and> v \<le> IRQ15 K then [Pic_ack (v - IRQ0 K)] else [])) \<and>
   (smp_mode s = MODE_UP \<and> ic_type s = IC_TYPE_PIC \<longrightarrow>
      (emitted s (dispatch_ack K v s) = [] \<longleftrightarrow> emitted s (final (ic_ack K v s)) = [])) \<and>
   (smp_mode s = MODE_SMP \<and> (ic_type s = IC_TYPE_LAPIC \<or> ic_type s = IC_TYPE_LX2APIC) \<and>
    FAULT31 K < IRQ0 K \<and> IRQ23 K < SPURIOUS K \<and> emitted s (final (ic_ack K v s)) \<noteq> [] \<longrightarrow>
      emitted s (dispatch_ack K v s) = [Apic_ack])"
proof (intro conjI impI)
  show "dispatch_ack K v (s\<lparr>ic_type := t\<rparr>) = (dispatch_ack K v s)\<lparr>ic_type := t\<rparr>"
    by (simp add: dispatch_ack_def hw_def)
  show "filter (\<lambda>e. \<not> is_handler_call e) (emitted s (final (intr_dispatch K st s))) =
     emitted s (dispatch_ack K (intr_id st) s)"
    by (rule dispatch_other_calls)
  show "emitted s (dispatch_ack K v s) =
     (if smp_mode s = MODE_SMP
      then (if FAULT31 K < v \<and> v \<noteq> SPURIOUS K then [Apic_ack] else [])
      else (if IRQ0 K \<le> v \<and> v \<le> IRQ15 K then [Pic_ack (v - IRQ0 K)] else []))"
    by (rule dispatch_ack_emitted)
  show "(emitted s (dispatch_ack K v s) = []) = (emitted s (final (ic_ack K v s)) = [])"
    if "smp_mode s = MODE_UP \<and> ic_type s = IC_TYPE_PIC"
    using that by (simp add: dispatch_ack_emitted ic_ack_def emitted_hw emitted_self)
  show "emitted s (dispatch_ack K v s) = [Apic_ack]"
    if "smp_mode s = MODE_SMP \<and> (ic_type s = IC_TYPE_LAPIC \<or> ic_type s = IC_TYPE_LX2APIC) \<and>
        FAULT31 K < IRQ0 K \<and> IRQ23 K < SPURIOUS K \<and> emitted s (final (ic_ack K v s)) \<noteq> []"
    using that
    by (auto simp: dispatch_ack_emitted ic_ack_def emitted_hw emitted_self split: if_splits)
qed

text \<open>
  Vector 33 on one processor under the PIC: both acknowledge. Vector 40 on several
  processors under the local APIC: \<^verbatim>\<open>ic_ack\<close> calls \<^verbatim>\<open>lapic_ack\<close>, the dispatcher
  \<^verbatim>\<open>apic_ack\<close>.
\<close>

theorem dispatch_ack_by_mode_witness:
  "emitted (boot_state IC_TYPE_PIC MODE_UP)
     (dispatch_ack arc_consts 33 (boot_state IC_TYPE_PIC MODE_UP)) \<noteq> [] \<and>
   emitted (boot_state IC_TYPE_PIC MODE_UP)
     (final (ic_ack arc_consts 33 (boot_state IC_TYPE_PIC MODE_UP))) \<noteq> [] \<and>
   emitted (boot_state IC_TYPE_LAPIC MODE_SMP)
     (dispatch_ack arc_consts 40 (boot_state IC_TYPE_LAPIC MODE_SMP)) = [Apic_ack]"
proof -
  let ?u = "boot_state IC_TYPE_PIC MODE_UP"
  let ?m = "boot_state IC_TYPE_LAPIC MODE_SMP"
  have up: "smp_mode ?u = MODE_UP \<and> ic_type ?u = IC_TYPE_PIC"
    by (simp add: boot_state_def)
  have ic33: "emitted ?u (final (ic_ack arc_consts 33 ?u)) = [Pic_ack 33]"
    by (simp add: ic_ack_def emitted_hw arc_consts_def boot_state_def)
  have ic40: "emitted ?m (final (ic_ack arc_consts 40 ?m)) = [Lapic_ack]"
    by (simp add: ic_ack_def emitted_hw arc_consts_def boot_state_def)
  have mp: "smp_mode ?m = MODE_SMP \<and> (ic_type ?m = IC_TYPE_LAPIC \<or> ic_type ?m = IC_TYPE_LX2APIC) \<and>
      FAULT31 arc_consts < IRQ0 arc_consts \<and> IRQ23 arc_consts < SPURIOUS arc_consts \<and>
      emitted ?m (final (ic_ack arc_consts 40 ?m)) \<noteq> []"
    by (simp add: ic40) (simp add: arc_consts_def boot_state_def)
  from dispatch_ack_by_mode [where K = arc_consts and v = 33 and s = ?u] up
  have "(emitted ?u (dispatch_ack arc_consts 33 ?u) = []) =
      (emitted ?u (final (ic_ack arc_consts 33 ?u)) = [])"
    by blast
  with ic33 have a: "emitted ?u (dispatch_ack arc_consts 33 ?u) \<noteq> []"
    by simp
  from ic33 have b: "emitted ?u (final (ic_ack arc_consts 33 ?u)) \<noteq> []"
    by simp
  from dispatch_ack_by_mode [where K = arc_consts and v = 40 and s = ?m] mp
  have c: "emitted ?m (dispatch_ack arc_consts 40 ?m) = [Apic_ack]"
    by blast
  from a b c show ?thesis by (intro conjI)
qed

end
